theory Spec2Isabelle
  imports Complex_Main "HOL-Library.Multiset" "HOL-Library.Sublist"
begin

section \<open>Data model\<close>

text \<open>
  The dataclasses \<^verbatim>\<open>ScrapedParkingSpot\<close> and \<^verbatim>\<open>CamperRequirements\<close> of
  \<^verbatim>\<open>dynamic_camper_parking_ai.py\<close>. Python floats are modelled as real numbers
  (no rounding, no NaN, no infinities); \<^verbatim>\<open>Optional[float]\<close> is \<open>real option\<close>.
  The field \<^verbatim>\<open>length\<close> of the requirements is named \<open>length_req\<close>, since
  \<open>length\<close> is the list function of HOL.
\<close>

record ScrapedParkingSpot =
  name :: string
  latitude :: real
  longitude :: real
  address :: string
  parking_type :: string
  max_height :: "real option"
  max_weight :: "real option"
  has_facilities :: bool
  overnight_allowed :: bool
  restrictions :: "string list"
  source :: string
  confidence :: real

record CamperRequirements =
  height :: real
  weight :: real
  length_req :: real
  needs_facilities :: bool
  needs_overnight :: bool
  radius_km :: real

section \<open>Geo math\<close>

text \<open>
  \<^verbatim>\<open>math.radians\<close> and \<^verbatim>\<open>DynamicParkingFinder._calculate_distance\<close> (haversine,
  Earth radius 6371 km). Over the reals the argument of \<open>arcsin\<close> always lies in
  \<open>[0, 1]\<close>, so the \<^verbatim>\<open>ValueError\<close> of \<^verbatim>\<open>math.asin\<close> cannot occur.
\<close>

definition radians :: "real \<Rightarrow> real" where
  "radians x = x * pi / 180"

definition calculate_distance :: "real \<Rightarrow> real \<Rightarrow> real \<Rightarrow> real \<Rightarrow> real" where
  "calculate_distance lat1 lon1 lat2 lon2 =
     (let lat1' = radians lat1; lon1' = radians lon1;
          lat2' = radians lat2; lon2' = radians lon2;
          dlat = lat2' - lat1';
          dlon = lon2' - lon1';
          a = (sin (dlat / 2))\<^sup>2 + cos lat1' * cos lat2' * (sin (dlon / 2))\<^sup>2
      in 2 * arcsin (sqrt a) * 6371)"

section \<open>Deduplication\<close>

text \<open>
  \<^verbatim>\<open>_deduplicate_spots\<close>. The test of the inner loop is \<open>is_near\<close>. The inner loop
  is \<open>scan_existing\<close>: it walks the accepted list (third argument: what is left
  to scan) and returns the flag \<^verbatim>\<open>is_duplicate\<close> with the accepted list as it is
  when the loop ends. The list is mutated only immediately before \<^verbatim>\<open>break\<close>, so
  scanning a snapshot of it is what the source does. \<^verbatim>\<open>list.remove\<close> deletes the
  first element equal to its argument, which is \<open>remove1\<close>.
\<close>

definition is_near :: "ScrapedParkingSpot \<Rightarrow> ScrapedParkingSpot \<Rightarrow> bool" where
  "is_near spot existing \<longleftrightarrow>
     calculate_distance (latitude spot) (longitude spot)
       (latitude existing) (longitude existing) < 0.1"

fun scan_existing ::
  "ScrapedParkingSpot \<Rightarrow> ScrapedParkingSpot list \<Rightarrow> ScrapedParkingSpot list
     \<Rightarrow> bool \<times> ScrapedParkingSpot list" where
  "scan_existing spot unique_spots [] = (False, unique_spots)"
| "scan_existing spot unique_spots (existing # rest) =
     (if is_near spot existing then
        (if confidence spot > confidence existing
         then (True, remove1 existing unique_spots @ [spot])
         else (True, unique_spots))
      else scan_existing spot unique_spots rest)"

definition dedup_step ::
  "ScrapedParkingSpot list \<Rightarrow> ScrapedParkingSpot \<Rightarrow> ScrapedParkingSpot list" where
  "dedup_step unique_spots spot =
     (case scan_existing spot unique_spots unique_spots of
        (is_duplicate, unique_spots') \<Rightarrow>
          if \<not> is_duplicate then unique_spots' @ [spot] else unique_spots')"

definition deduplicate_spots :: "ScrapedParkingSpot list \<Rightarrow> ScrapedParkingSpot list" where
  "deduplicate_spots spots = foldl dedup_step [] spots"

section \<open>Requirement filter and ranking\<close>

text \<open>
  \<^verbatim>\<open>_filter_spots\<close>. The test \<^verbatim>\<open>spot.max_height and spot.max_height < reqs.height\<close>
  is \<open>restricted_below\<close>: a Python float is truthy when it is not zero, and
  \<^verbatim>\<open>None\<close> is falsy. The loop is \<open>filter_loop\<close>, which appends the spots that
  reach the end of the body to \<^verbatim>\<open>suitable_spots\<close>.

  \<^verbatim>\<open>sorted(xs, key=k, reverse=True)\<close> is \<open>sorted_reverse\<close>: CPython reverses the
  list, sorts it stably in ascending key order and reverses the result.
\<close>

definition restricted_below :: "real option \<Rightarrow> real \<Rightarrow> bool" where
  "restricted_below limit required =
     (case limit of None \<Rightarrow> False | Some v \<Rightarrow> v \<noteq> 0 \<and> v < required)"

fun filter_loop ::
  "ScrapedParkingSpot list \<Rightarrow> CamperRequirements \<Rightarrow> ScrapedParkingSpot list
     \<Rightarrow> ScrapedParkingSpot list" where
  "filter_loop [] reqs suitable_spots = suitable_spots"
| "filter_loop (spot # spots) reqs suitable_spots =
     (if restricted_below (max_height spot) (height reqs)
        then filter_loop spots reqs suitable_spots
      else if restricted_below (max_weight spot) (weight reqs)
        then filter_loop spots reqs suitable_spots
      else if needs_facilities reqs \<and> \<not> has_facilities spot
        then filter_loop spots reqs suitable_spots
      else if needs_overnight reqs \<and> \<not> overnight_allowed spot
        then filter_loop spots reqs suitable_spots
      else filter_loop spots reqs (suitable_spots @ [spot]))"

definition sorted_reverse :: "('a \<Rightarrow> real) \<Rightarrow> 'a list \<Rightarrow> 'a list" where
  "sorted_reverse key xs = rev (sort_key key (rev xs))"

definition filter_spots ::
  "ScrapedParkingSpot list \<Rightarrow> CamperRequirements \<Rightarrow> ScrapedParkingSpot list" where
  "filter_spots spots reqs = sorted_reverse confidence (filter_loop spots reqs [])"

section \<open>Source connectors\<close>

text \<open>
  The network and the parsers behind it are not modelled. A \<open>world\<close> gives, for one
  search, what the body of each \<^verbatim>\<open>try\<close> block does: it raises (\<open>Inl\<close>) or it
  returns (\<open>Inr\<close>). The exception classes are the ones the handlers of the source
  tell apart: \<^verbatim>\<open>requests.RequestException\<close>, \<^verbatim>\<open>json.JSONDecodeError\<close>, and every
  other \<^verbatim>\<open>Exception\<close> (\<^verbatim>\<open>KeyError\<close>, \<^verbatim>\<open>TypeError\<close>, \<^verbatim>\<open>AttributeError\<close>, ... from
  the parsing code). The two readings of \<^verbatim>\<open>time.time()\<close> in \<^verbatim>\<open>find_parking_spots\<close>
  (line 718 and line 742) are \<open>time_at_check\<close> and \<open>time_at_store\<close>.
  \<open>google_api_key\<close> is the attribute \<^verbatim>\<open>GooglePlacesScraper.api_key\<close>.
\<close>

datatype exn = RequestException | JSONDecodeError | OtherException

record world =
  geocode_body :: "string \<Rightarrow> exn + (real \<times> real) option"
  osm_body :: "real \<Rightarrow> real \<Rightarrow> real \<Rightarrow> exn + ScrapedParkingSpot list"
  google_api_key :: "string option"
  google_search_by_type :: "real \<Rightarrow> real \<Rightarrow> real \<Rightarrow> string \<Rightarrow> exn + ScrapedParkingSpot list"
  helsinki_palvelukartta :: "real \<Rightarrow> real \<Rightarrow> real \<Rightarrow> exn + ScrapedParkingSpot list"
  helsinki_info_page :: "real \<Rightarrow> real \<Rightarrow> exn + ScrapedParkingSpot list"
  city_parking_page :: "string \<Rightarrow> real \<Rightarrow> real \<Rightarrow> exn + ScrapedParkingSpot list"
  time_at_check :: real
  time_at_store :: real

text \<open>
  \<^verbatim>\<open>_geocode_location\<close>: the body returns the coordinates, or falls through when the
  answer is empty; every exception is caught and gives \<^verbatim>\<open>None\<close>.
\<close>

definition geocode_location :: "world \<Rightarrow> string \<Rightarrow> (real \<times> real) option" where
  "geocode_location w location =
     (case geocode_body w location of Inl e \<Rightarrow> None | Inr coords \<Rightarrow> coords)"

text \<open>
  \<^verbatim>\<open>OpenStreetMapScraper.search_parking_spots\<close>: the handlers catch
  \<^verbatim>\<open>RequestException\<close> and \<^verbatim>\<open>JSONDecodeError\<close> only. Both are raised by the request
  and the decoding, before the loop appends anything, so \<^verbatim>\<open>spots\<close> is empty when
  they are caught. Any other exception leaves the function.
\<close>

definition osm_search ::
  "world \<Rightarrow> real \<Rightarrow> real \<Rightarrow> real \<Rightarrow> exn + ScrapedParkingSpot list" where
  "osm_search w lat lon radius =
     (case osm_body w lat lon radius of
        Inl RequestException \<Rightarrow> Inr []
      | Inl JSONDecodeError \<Rightarrow> Inr []
      | Inl OtherException \<Rightarrow> Inl OtherException
      | Inr spots \<Rightarrow> Inr spots)"

text \<open>
  \<^verbatim>\<open>GooglePlacesScraper.search_parking_spots\<close>: nothing without an API key
  (\<^verbatim>\<open>None\<close> and the empty string are falsy); otherwise one \<^verbatim>\<open>try\<close> per search
  type, with \<^verbatim>\<open>except Exception\<close>.
\<close>

definition search_types :: "string list" where
  "search_types = [''parking'', ''campground'', ''rv_park'', ''rest_area'']"

fun google_loop ::
  "world \<Rightarrow> real \<Rightarrow> real \<Rightarrow> real \<Rightarrow> string list \<Rightarrow> ScrapedParkingSpot list
     \<Rightarrow> ScrapedParkingSpot list" where
  "google_loop w lat lon radius [] spots = spots"
| "google_loop w lat lon radius (search_type # rest) spots =
     (case google_search_by_type w lat lon radius search_type of
        Inl e \<Rightarrow> google_loop w lat lon radius rest spots
      | Inr found \<Rightarrow> google_loop w lat lon radius rest (spots @ found))"

definition google_search ::
  "world \<Rightarrow> real \<Rightarrow> real \<Rightarrow> real \<Rightarrow> ScrapedParkingSpot list" where
  "google_search w lat lon radius =
     (case google_api_key w of
        None \<Rightarrow> []
      | Some k \<Rightarrow> if k = [] then [] else google_loop w lat lon radius search_types [])"

text \<open>
  \<^verbatim>\<open>HelsinkiOfficialScraper.search_helsinki_parking_spots\<close> and
  \<^verbatim>\<open>CityWebsiteScraper.search_parking_spots\<close>. Every call is inside
  \<^verbatim>\<open>try ... except Exception\<close>. \<open>lower\<close> is \<^verbatim>\<open>str.lower\<close> on ASCII letters (other
  characters are left as they are); \<^verbatim>\<open>'helsinki' in city_lower\<close> is \<open>sublist\<close>.
\<close>

definition lower_char :: "char \<Rightarrow> char" where
  "lower_char c =
     (if (65::nat) \<le> of_char c \<and> of_char c \<le> (90::nat)
      then char_of (of_char c + (32::nat)) else c)"

definition lower :: "string \<Rightarrow> string" where
  "lower s = map lower_char s"

definition city_parking_urls :: "string list" where
  "city_parking_urls = [''tampere'', ''turku'', ''oulu'']"

definition search_helsinki_parking_spots ::
  "world \<Rightarrow> real \<Rightarrow> real \<Rightarrow> real \<Rightarrow> ScrapedParkingSpot list" where
  "search_helsinki_parking_spots w lat lon radius =
     (let spots = (case helsinki_palvelukartta w lat lon radius of
                     Inl e \<Rightarrow> [] | Inr found \<Rightarrow> found)
      in case helsinki_info_page w lat lon of
           Inl e \<Rightarrow> spots | Inr found \<Rightarrow> spots @ found)"

definition city_search ::
  "world \<Rightarrow> string \<Rightarrow> real \<Rightarrow> real \<Rightarrow> real \<Rightarrow> ScrapedParkingSpot list" where
  "city_search w city lat lon radius =
     (let city_lower = lower city in
      if sublist ''helsinki'' city_lower
        then search_helsinki_parking_spots w lat lon radius
      else if city_lower \<notin> set city_parking_urls then []
      else (case city_parking_page w city_lower lat lon of
              Inl e \<Rightarrow> [] | Inr found \<Rightarrow> found))"

section \<open>Result cache and orchestrator\<close>

text \<open>
  The cache key is the string \<^verbatim>\<open>f"{lat:.4f}_{lon:.4f}_{camper_reqs.radius_km}"\<close>.
  \<open>format_4f\<close> stands for the text of \<^verbatim>\<open>{x:.4f}\<close>: the sign that is printed and the
  digits, which are the magnitude times 10000 rounded to the nearest integer, ties
  to even (a negative number that rounds to zero prints as \<^verbatim>\<open>-0.0000\<close>). The
  radius is printed in full, so it is kept as it is.
\<close>

definition round_half_even :: "real \<Rightarrow> int" where
  "round_half_even x =
     (let n = \<lfloor>x\<rfloor>; d = x - of_int n
      in if d < 1 / 2 then n
         else if d > 1 / 2 then n + 1
         else if even n then n else n + 1)"

definition format_4f :: "real \<Rightarrow> bool \<times> int" where
  "format_4f x = (x < 0, round_half_even (\<bar>x\<bar> * 10000))"

type_synonym cache_key = "(bool \<times> int) \<times> (bool \<times> int) \<times> real"

definition make_cache_key :: "real \<Rightarrow> real \<Rightarrow> real \<Rightarrow> cache_key" where
  "make_cache_key lat lon radius = (format_4f lat, format_4f lon, radius)"

definition cache_duration :: real where
  "cache_duration = 3600"

type_synonym cache = "cache_key \<rightharpoonup> ScrapedParkingSpot list \<times> real"

datatype connector = OpenStreetMap | GooglePlaces | CityWebsites

text \<open>
  \<^verbatim>\<open>DynamicParkingFinder.find_parking_spots\<close>. The result is what the call returns
  (\<open>Inr\<close>) or the exception that leaves it (\<open>Inl\<close>), the cache after the call, and the
  connectors that were invoked, in order. \<open>scrape_and_cache\<close> is the part of the
  function after the cache check (lines 722 to 744): the three connector calls are
  not inside any \<^verbatim>\<open>try\<close>.
\<close>

definition scrape_and_cache ::
  "world \<Rightarrow> cache \<Rightarrow> cache_key \<Rightarrow> string \<Rightarrow> real \<Rightarrow> real \<Rightarrow> CamperRequirements
     \<Rightarrow> (exn + ScrapedParkingSpot list) \<times> cache \<times> connector list" where
  "scrape_and_cache w cache key location lat lon camper_reqs =
     (case osm_search w lat lon (radius_km camper_reqs) of
        Inl e \<Rightarrow> (Inl e, cache, [OpenStreetMap])
      | Inr osm_spots \<Rightarrow>
          (let google_spots = google_search w lat lon (radius_km camper_reqs);
               city_spots = city_search w location lat lon (radius_km camper_reqs);
               all_spots = osm_spots @ google_spots @ city_spots;
               unique_spots = deduplicate_spots all_spots
           in (Inr (filter_spots unique_spots camper_reqs),
               cache(key \<mapsto> (unique_spots, time_at_store w)),
               [OpenStreetMap, GooglePlaces, CityWebsites])))"

definition find_parking_spots ::
  "world \<Rightarrow> cache \<Rightarrow> string \<Rightarrow> CamperRequirements
     \<Rightarrow> (exn + ScrapedParkingSpot list) \<times> cache \<times> connector list" where
  "find_parking_spots w cache location camper_reqs =
     (case geocode_location w location of
        None \<Rightarrow> (Inr [], cache, [])
      | Some (lat, lon) \<Rightarrow>
          (let key = make_cache_key lat lon (radius_km camper_reqs)
           in case cache key of
                Some (cached_data, timestamp) \<Rightarrow>
                  if time_at_check w - timestamp < cache_duration
                  then (Inr (filter_spots cached_data camper_reqs), cache, [])
                  else scrape_and_cache w cache key location lat lon camper_reqs
              | None \<Rightarrow> scrape_and_cache w cache key location lat lon camper_reqs))"

text \<open>
  \<^verbatim>\<open>DynamicCamperParkingAI.search_parking\<close>. The dictionary \<^verbatim>\<open>search_params\<close> is a
  record; the returned dictionary is a \<open>search_result\<close>, one constructor per value
  of \<^verbatim>\<open>"status"\<close>. The spots of a success are carried as records (the dictionaries
  of \<^verbatim>\<open>_format_spot\<close> are not modelled), and \<^verbatim>\<open>_save_defaults\<close>, which catches every
  exception, is left out.
\<close>

record search_params =
  p_location :: string
  p_height :: real
  p_weight :: real
  p_length :: real
  p_needs_facilities :: bool
  p_needs_overnight :: bool
  p_radius_km :: real

datatype search_result =
    No_results string string search_params
  | Success string real "real \<times> real \<times> real" nat "ScrapedParkingSpot list"
  | Error exn

definition search_parking ::
  "world \<Rightarrow> cache \<Rightarrow> string \<Rightarrow> real \<Rightarrow> real \<Rightarrow> real \<Rightarrow> bool \<Rightarrow> bool \<Rightarrow> real
     \<Rightarrow> search_result \<times> cache \<times> connector list" where
  "search_parking w cache location h wt len facilities overnight radius =
     (let params = \<lparr>p_location = location, p_height = h, p_weight = wt, p_length = len,
                     p_needs_facilities = facilities, p_needs_overnight = overnight,
                     p_radius_km = radius\<rparr>;
          reqs = \<lparr>height = h, weight = wt, length_req = len, needs_facilities = facilities,
                   needs_overnight = overnight, radius_km = radius\<rparr>
      in case find_parking_spots w cache location reqs of
           (Inl e, cache', calls) \<Rightarrow> (Error e, cache', calls)
         | (Inr spots, cache', calls) \<Rightarrow>
             if spots = []
             then (No_results (''No suitable parking spots found near '' @ location)
                     ''Try expanding search radius or adjusting requirements'' params,
                   cache', calls)
             else (Success location radius (h, wt, len) (length spots) spots,
                   cache', calls))"

section \<open>Fixtures\<close>

text \<open>
  Concrete records for the evaluations below. \<open>spot_at\<close> builds a record as the
  OpenStreetMap connector does for an untagged node at the given position.
  \<open>spot_A\<close>, \<open>spot_B\<close> and \<open>spot_C\<close> lie on the equator at longitudes 0, 0.001 and
  0.0005 degrees (about 111 m between A and B, 56 m between C and each of them).
\<close>

definition spot_at :: "real \<Rightarrow> real \<Rightarrow> real \<Rightarrow> ScrapedParkingSpot" where
  "spot_at lat lon conf =
     \<lparr>name = ''P'', latitude = lat, longitude = lon, address = ''Unknown address'',
      parking_type = ''parking_lot'', max_height = None, max_weight = None,
      has_facilities = False, overnight_allowed = True, restrictions = [],
      source = ''OpenStreetMap'', confidence = conf\<rparr>"

definition spot_A :: ScrapedParkingSpot where "spot_A = spot_at 0 0 0.5"
definition spot_B :: ScrapedParkingSpot where "spot_B = spot_at 0 0.001 0.5"
definition spot_C :: ScrapedParkingSpot where "spot_C = spot_at 0 0.0005 0.9"

definition spot_zero_height :: ScrapedParkingSpot where
  "spot_zero_height = (spot_at 0 0 0.8)\<lparr>max_height := Some 0\<rparr>"

definition spot_zero_weight :: ScrapedParkingSpot where
  "spot_zero_weight = (spot_at 0 0 0.8)\<lparr>max_weight := Some 0\<rparr>"

definition spot_height_3 :: ScrapedParkingSpot where
  "spot_height_3 = (spot_at 0 0 0.8)\<lparr>max_height := Some 3.0\<rparr>"

definition reqs_with_height :: "real \<Rightarrow> CamperRequirements" where
  "reqs_with_height h =
     \<lparr>height = h, weight = 3.5, length_req = 7.0, needs_facilities = False,
      needs_overnight = True, radius_km = 10.0\<rparr>"

definition spot_no_overnight :: ScrapedParkingSpot where
  "spot_no_overnight = (spot_at 0 0 0.8)\<lparr>overnight_allowed := False\<rparr>"

text \<open>
  Worlds. In \<open>quiet_world\<close> the geocoder resolves every location to (0, 0), every
  request succeeds and finds nothing, and there is no API key. The others differ
  from it in what is named.
\<close>

definition quiet_world :: world where
  "quiet_world =
     \<lparr>geocode_body = (\<lambda>location. Inr (Some (0, 0))),
      osm_body = (\<lambda>lat lon radius. Inr []),
      google_api_key = None,
      google_search_by_type = (\<lambda>lat lon radius search_type. Inr []),
      helsinki_palvelukartta = (\<lambda>lat lon radius. Inr []),
      helsinki_info_page = (\<lambda>lat lon. Inr []),
      city_parking_page = (\<lambda>city lat lon. Inr []),
      time_at_check = 1000,
      time_at_store = 1001\<rparr>"

definition world_unresolved :: world where
  "world_unresolved = quiet_world\<lparr>geocode_body := (\<lambda>location. Inl RequestException)\<rparr>"

definition world_one_spot :: world where
  "world_one_spot = quiet_world\<lparr>osm_body := (\<lambda>lat lon radius. Inr [spot_no_overnight])\<rparr>"

text \<open>
  \<open>world_later\<close> is a later search: the geocoder answers with a latitude that
  differs from 0 in the fifth decimal place, and the OpenStreetMap request would
  fail if it were made. \<open>world_at t\<close> is the quiet world at time \<open>t\<close>.
\<close>

definition lat_nearby :: real where
  "lat_nearby = 0.00001"

definition world_later :: world where
  "world_later =
     quiet_world\<lparr>geocode_body := (\<lambda>location. Inr (Some (lat_nearby, 0))),
                  osm_body := (\<lambda>lat lon radius. Inl OtherException),
                  time_at_check := 2000, time_at_store := 2001\<rparr>"

definition world_at :: "real \<Rightarrow> world" where
  "world_at t = quiet_world\<lparr>time_at_check := t, time_at_store := t\<rparr>"

text \<open>
  In \<open>world_osm_raises\<close> the body of the OpenStreetMap connector raises an exception
  that is neither a \<^verbatim>\<open>RequestException\<close> nor a \<^verbatim>\<open>JSONDecodeError\<close> (for example the
  \<^verbatim>\<open>AttributeError\<close> of \<^verbatim>\<open>data.get\<close> when the answer is a JSON list, or the
  \<^verbatim>\<open>KeyError\<close> of \<^verbatim>\<open>element['center']['lat']\<close>), an API key is configured, and every
  Google request finds one place.
\<close>

definition spot_google :: ScrapedParkingSpot where
  "spot_google = (spot_at 0 0 0.7)\<lparr>source := ''Google Places''\<rparr>"

definition world_osm_raises :: world where
  "world_osm_raises =
     quiet_world\<lparr>osm_body := (\<lambda>lat lon radius. Inl OtherException),
                  google_api_key := Some ''key'',
                  google_search_by_type :=
                    (\<lambda>lat lon radius search_type. Inr [spot_google])\<rparr>"

definition reqs_overnight :: "bool \<Rightarrow> CamperRequirements" where
  "reqs_overnight b =
     \<lparr>height = 3.2, weight = 3.5, length_req = 7.0, needs_facilities = False,
      needs_overnight = b, radius_km = 10.0\<rparr>"

text \<open>
  The retention condition in the words of the specification, to compare with the
  filter of the source: a recorded restriction is compared with the requirement
  whatever its value.
\<close>

definition spec_retains :: "CamperRequirements \<Rightarrow> ScrapedParkingSpot \<Rightarrow> bool" where
  "spec_retains reqs spot \<longleftrightarrow>
     (case max_height spot of None \<Rightarrow> True | Some h \<Rightarrow> h \<ge> height reqs) \<and>
     (case max_weight spot of None \<Rightarrow> True | Some w \<Rightarrow> w \<ge> weight reqs) \<and>
     (\<not> needs_facilities reqs \<or> has_facilities spot) \<and>
     (\<not> needs_overnight reqs \<or> overnight_allowed spot)"

section \<open>Distances on the equator\<close>

lemma pi_ge_3: "3 \<le> pi"
proof -
  have "sin (pi / 6) \<le> pi / 6" by (rule sin_x_le_x) simp
  then show ?thesis by (simp add: sin_30)
qed

lemma equator_distance:
  assumes "\<bar>lon2 - lon1\<bar> \<le> 180"
  shows "calculate_distance 0 lon1 0 lon2 = \<bar>lon2 - lon1\<bar> * pi / 180 * 6371"
proof -
  define x where "x = (radians lon2 - radians lon1) / 2"
  have x_eq: "x = (lon2 - lon1) * pi / 360"
    by (simp add: x_def radians_def field_simps)
  have abs_x: "\<bar>x\<bar> = \<bar>lon2 - lon1\<bar> * pi / 360"
    by (simp add: x_eq abs_mult)
  have bound: "\<bar>x\<bar> \<le> pi / 2"
  proof -
    have "\<bar>lon2 - lon1\<bar> * pi \<le> 180 * pi"
      using assms by (intro mult_right_mono) simp_all
    then show ?thesis by (simp add: abs_x)
  qed
  have "sqrt ((sin x)\<^sup>2) = \<bar>sin x\<bar>" by simp
  also have "\<dots> = sin \<bar>x\<bar>"
  proof (cases "0 \<le> x")
    case True
    then have "0 \<le> sin x" using bound by (intro sin_ge_zero) (auto simp: abs_if)
    then show ?thesis using True by simp
  next
    case False
    then have "0 \<le> sin (- x)" using bound by (intro sin_ge_zero) (auto simp: abs_if)
    then show ?thesis using False by simp
  qed
  finally have s: "sqrt ((sin x)\<^sup>2) = sin \<bar>x\<bar>" .
  have "arcsin (sin \<bar>x\<bar>) = \<bar>x\<bar>"
    using bound by (intro arcsin_sin) auto
  then have "2 * arcsin (sqrt ((sin x)\<^sup>2)) * 6371 = 2 * \<bar>x\<bar> * 6371"
    using s by simp
  moreover have "calculate_distance 0 lon1 0 lon2 = 2 * arcsin (sqrt ((sin x)\<^sup>2)) * 6371"
    unfolding calculate_distance_def Let_def x_def by (simp add: radians_def)
  ultimately show ?thesis by (simp add: abs_x)
qed

lemma is_near_equator:
  assumes "\<bar>lon2 - lon1\<bar> \<le> 180"
  shows "is_near (spot_at 0 lon1 c1) (spot_at 0 lon2 c2) \<longleftrightarrow>
    \<bar>lon2 - lon1\<bar> * pi / 180 * 6371 < 0.1"
proof -
  have "calculate_distance 0 lon1 0 lon2 = \<bar>lon2 - lon1\<bar> * pi / 180 * 6371"
    using assms by (rule equator_distance)
  then have "calculate_distance (latitude (spot_at 0 lon1 c1)) (longitude (spot_at 0 lon1 c1))
      (latitude (spot_at 0 lon2 c2)) (longitude (spot_at 0 lon2 c2))
      = \<bar>lon2 - lon1\<bar> * pi / 180 * 6371"
    by (simp add: spot_at_def)
  then show ?thesis unfolding is_near_def by (rule arg_cong [where f = "\<lambda>d. d < 0.1"])
qed

lemma far_apart:
  assumes "\<bar>lon2 - lon1\<bar> = 0.001"
  shows "\<not> is_near (spot_at 0 lon1 c1) (spot_at 0 lon2 c2)"
proof -
  have "3 \<le> pi" by (rule pi_ge_3)
  then have "\<not> (\<bar>lon2 - lon1\<bar> * pi / 180 * 6371 < 0.1)" unfolding assms by simp
  moreover have "\<bar>lon2 - lon1\<bar> \<le> 180" by (simp only: assms) simp
  ultimately show ?thesis using is_near_equator [of lon2 lon1 c1 c2] by blast
qed

lemma close_by:
  assumes "\<bar>lon2 - lon1\<bar> = 0.0005"
  shows "is_near (spot_at 0 lon1 c1) (spot_at 0 lon2 c2)"
proof -
  have "pi < 4" by (rule pi_less_4)
  then have "0.0005 * pi / 180 * 6371 < (0.1::real)" by simp
  then have "\<bar>lon2 - lon1\<bar> * pi / 180 * 6371 < 0.1" by (simp only: assms)
  moreover have "\<bar>lon2 - lon1\<bar> \<le> 180" by (simp only: assms) simp
  ultimately show ?thesis using is_near_equator [of lon2 lon1 c1 c2] by blast
qed

lemma far_B_A: "\<not> is_near spot_B spot_A"
  unfolding spot_A_def spot_B_def by (rule far_apart) simp

lemma near_C_A: "is_near spot_C spot_A"
  unfolding spot_A_def spot_C_def by (rule close_by) simp

lemma near_C_B: "is_near spot_C spot_B"
  unfolding spot_B_def spot_C_def by (rule close_by) simp

lemma near_B_C: "is_near spot_B spot_C"
  unfolding spot_B_def spot_C_def by (rule close_by) simp

lemma confidence_ABC:
  "confidence spot_A = 0.5" "confidence spot_B = 0.5" "confidence spot_C = 0.9"
  by (simp_all add: spot_A_def spot_B_def spot_C_def spot_at_def)

section \<open>Deduplication: the step on a duplicate\<close>

lemma scan_existing_first_match:
  assumes "\<forall>x\<in>set pre. \<not> is_near spot x" and "is_near spot e"
  shows "scan_existing spot u (pre @ e # post) =
     (if confidence spot > confidence e then (True, remove1 e u @ [spot]) else (True, u))"
  using assms by (induction pre) auto

lemma scan_existing_no_match:
  assumes "\<forall>x\<in>set rest. \<not> is_near spot x"
  shows "scan_existing spot u rest = (False, u)"
  using assms by (induction rest) auto

lemma remove1_nth_first:
  assumes "i < length xs" and "xs ! i \<notin> set (take i xs)"
  shows "remove1 (xs ! i) xs = take i xs @ drop (Suc i) xs"
proof -
  have "xs = take i xs @ xs ! i # drop (Suc i) xs"
    using assms(1) by (rule id_take_nth_drop)
  then have "remove1 (xs ! i) xs = remove1 (xs ! i) (take i xs @ xs ! i # drop (Suc i) xs)"
    by simp
  also have "\<dots> = take i xs @ drop (Suc i) xs"
    using assms(2) by (simp add: remove1_append)
  finally show ?thesis .
qed

text \<open>
  C1. The specification asks that no two records of the output of the deduplication
  are within 0.1 km of each other, and that deduplicating the output again changes
  nothing. The source does not achieve this: on the input A, B, C, where C is near
  both A and B, and A and B are far from each other, C replaces A (the first match,
  of lower confidence) and is never compared with B. The output holds B and C,
  which are near each other, and a second run of the deduplication on that output
  removes B.
\<close>

theorem deduplicate_spots_keeps_near_pair:
  "deduplicate_spots [spot_A, spot_B, spot_C] = [spot_B, spot_C]
   \<and> is_near spot_B spot_C \<and> is_near spot_C spot_B
   \<and> deduplicate_spots [spot_B, spot_C] = [spot_C]"
  by (simp add: deduplicate_spots_def dedup_step_def far_B_A near_C_A near_C_B near_B_C
      confidence_ABC)

text \<open>
  C2. When the incoming record is near some accepted spot, let \<open>i\<close> be the position
  of the first accepted spot it is near. The step looks at the confidence of that
  spot only: if the incoming confidence is strictly greater, the spot at position
  \<open>i\<close> is removed and the incoming record is appended at the end; otherwise (also
  on equal confidence) the accepted sequence is unchanged.
\<close>

theorem dedup_step_first_match:
  assumes "i < length unique_spots"
    and "is_near spot (unique_spots ! i)"
    and "\<forall>j<i. \<not> is_near spot (unique_spots ! j)"
  shows "dedup_step unique_spots spot =
     (if confidence spot > confidence (unique_spots ! i)
      then take i unique_spots @ drop (Suc i) unique_spots @ [spot]
      else unique_spots)"
proof -
  let ?e = "unique_spots ! i"
  have split: "unique_spots = take i unique_spots @ ?e # drop (Suc i) unique_spots"
    using assms(1) by (rule id_take_nth_drop)
  have far: "\<forall>x\<in>set (take i unique_spots). \<not> is_near spot x"
    using assms(1,3) by (auto simp: in_set_conv_nth)
  then have notin: "?e \<notin> set (take i unique_spots)"
    using assms(2) by blast
  have "scan_existing spot unique_spots unique_spots =
      scan_existing spot unique_spots (take i unique_spots @ ?e # drop (Suc i) unique_spots)"
    using split by simp
  also have "\<dots> = (if confidence spot > confidence ?e
      then (True, remove1 ?e unique_spots @ [spot]) else (True, unique_spots))"
    using far assms(2) by (rule scan_existing_first_match)
  finally have "scan_existing spot unique_spots unique_spots =
      (if confidence spot > confidence ?e
       then (True, take i unique_spots @ drop (Suc i) unique_spots @ [spot])
       else (True, unique_spots))"
    using remove1_nth_first [OF assms(1) notin] by simp
  then show ?thesis by (simp add: dedup_step_def)
qed

text \<open>
  The step at \<open>[spot_B, spot_A]\<close> with incoming \<open>spot_C\<close>, which is near both: only
  \<open>spot_B\<close>, the first, is compared and replaced. With \<open>spot_A\<close> incoming at
  \<open>[spot_C]\<close> (lower confidence) nothing changes.
\<close>

theorem dedup_step_first_match_witness:
  "dedup_step [spot_B, spot_A] spot_C = [spot_A, spot_C]
   \<and> dedup_step [spot_C] spot_A = [spot_C]"
proof -
  have A_C: "is_near spot_A spot_C"
    unfolding spot_A_def spot_C_def by (rule close_by) simp
  have "dedup_step [spot_B, spot_A] spot_C = [spot_A, spot_C]"
    using dedup_step_first_match [of 0 "[spot_B, spot_A]" spot_C]
    by (simp add: near_C_B confidence_ABC)
  moreover have "dedup_step [spot_C] spot_A = [spot_C]"
    using dedup_step_first_match [of 0 "[spot_C]" spot_A]
    by (simp add: A_C confidence_ABC)
  ultimately show ?thesis by simp
qed

section \<open>Requirement filter and ranking: properties\<close>

lemma filter_loop_eq:
  "filter_loop spots reqs acc = acc @ filter (\<lambda>spot.
      \<not> restricted_below (max_height spot) (height reqs) \<and>
      \<not> restricted_below (max_weight spot) (weight reqs) \<and>
      (\<not> needs_facilities reqs \<or> has_facilities spot) \<and>
      (\<not> needs_overnight reqs \<or> overnight_allowed spot)) spots"
  by (induction spots arbitrary: acc) auto

lemma not_restricted_below:
  "\<not> restricted_below limit required \<longleftrightarrow>
     (case limit of None \<Rightarrow> True | Some v \<Rightarrow> v = 0 \<or> v \<ge> required)"
  by (auto simp: restricted_below_def split: option.splits)

lemma mset_sorted_reverse: "mset (sorted_reverse key xs) = mset xs"
  by (simp add: sorted_reverse_def)

lemma sorted_reverse_stable:
  "filter (\<lambda>y. key y = c) (sorted_reverse key xs) = filter (\<lambda>y. key y = c) xs"
  by (simp add: sorted_reverse_def rev_filter [symmetric] sort_key_stable)

lemma sorted_reverse_desc:
  "sorted_wrt (\<lambda>a b. key a \<ge> key b) (sorted_reverse key xs)"
proof -
  have "sorted (map key (sort_key key (rev xs)))" by simp
  then have "sorted_wrt (\<lambda>a b. key a \<le> key b) (sort_key key (rev xs))"
    by (simp add: sorted_map)
  then show ?thesis
    by (simp add: sorted_reverse_def sorted_wrt_rev)
qed

lemma filter_spots_Nil: "filter_spots [] reqs = []"
  by (simp add: filter_spots_def sorted_reverse_def)

lemma filter_spots_single:
  "filter_spots [spot] reqs = filter_loop [spot] reqs []"
  by (simp add: filter_spots_def sorted_reverse_def)

text \<open>
  C3, as the specification states it, fails: a recorded limit of zero is not compared
  with the requirement. \<open>spot_zero_height\<close> records a maximum height of 0; at a
  required height of 3.2 the specification's condition rejects it and the filter of
  the source keeps it.
\<close>

theorem filter_spots_zero_height_counterexample:
  "\<not> (spot_zero_height \<in> set (filter_spots [spot_zero_height] (reqs_with_height 3.2))
       \<longleftrightarrow> spec_retains (reqs_with_height 3.2) spot_zero_height)"
  by (simp add: filter_spots_def sorted_reverse_def restricted_below_def spec_retains_def
      spot_zero_height_def reqs_with_height_def spot_at_def)

text \<open>
  C3, amended. The filter keeps exactly the spots for which all four conditions hold:
  (no recorded maximum height, or the recorded value is zero, or it is at least the
  required height), the same for the weight, (facilities not needed or present),
  (overnight not needed or allowed). Each spot is kept as often as it occurs in the
  input.
\<close>

theorem filter_spots_retains:
  "mset (filter_spots spots reqs) = filter_mset (\<lambda>spot.
      (case max_height spot of None \<Rightarrow> True | Some h \<Rightarrow> h = 0 \<or> h \<ge> height reqs) \<and>
      (case max_weight spot of None \<Rightarrow> True | Some w \<Rightarrow> w = 0 \<or> w \<ge> weight reqs) \<and>
      (\<not> needs_facilities reqs \<or> has_facilities spot) \<and>
      (\<not> needs_overnight reqs \<or> overnight_allowed spot)) (mset spots)"
  by (simp add: filter_spots_def mset_sorted_reverse filter_loop_eq not_restricted_below)

text \<open>
  Example 3 of the specification: a spot with a maximum height of 3.0 is excluded at
  a required height of 3.2 and included at 2.8.
\<close>

theorem filter_spots_retains_witness:
  "filter_spots [spot_height_3] (reqs_with_height 3.2) = []
   \<and> filter_spots [spot_height_3] (reqs_with_height 2.8) = [spot_height_3]"
proof -
  have "mset (filter_spots [spot_height_3] (reqs_with_height 3.2)) = {#}"
    using filter_spots_retains [of "[spot_height_3]" "reqs_with_height 3.2"]
    by (simp add: spot_height_3_def reqs_with_height_def spot_at_def)
  moreover have "mset (filter_spots [spot_height_3] (reqs_with_height 2.8)) = {#spot_height_3#}"
    using filter_spots_retains [of "[spot_height_3]" "reqs_with_height 2.8"]
    by (simp add: spot_height_3_def reqs_with_height_def spot_at_def)
  ultimately show ?thesis by simp
qed

text \<open>
  C9. The returned list is in descending order of confidence; it holds the retained
  records, which are a subsequence of the input (the output of the deduplication);
  and for every confidence value the records with that confidence come in the
  same order as among the retained records, that is, as in the input.
\<close>

theorem filter_spots_ranked_stable:
  "sorted_wrt (\<lambda>a b. confidence a \<ge> confidence b) (filter_spots spots reqs)
   \<and> mset (filter_spots spots reqs) = mset (filter_loop spots reqs [])
   \<and> subseq (filter_loop spots reqs []) spots
   \<and> filter (\<lambda>s. confidence s = c) (filter_spots spots reqs)
       = filter (\<lambda>s. confidence s = c) (filter_loop spots reqs [])"
  by (simp add: filter_spots_def sorted_reverse_desc mset_sorted_reverse sorted_reverse_stable
      filter_loop_eq)

lemma set_filter_spots:
  "set (filter_spots spots reqs) = {spot \<in> set spots.
      \<not> restricted_below (max_height spot) (height reqs) \<and>
      \<not> restricted_below (max_weight spot) (weight reqs) \<and>
      (\<not> needs_facilities reqs \<or> has_facilities spot) \<and>
      (\<not> needs_overnight reqs \<or> overnight_allowed spot)}"
  by (simp add: filter_spots_def sorted_reverse_def filter_loop_eq)

text \<open>
  C10. A spot of the input whose recorded maximum height is exactly zero is in the
  result of the filter exactly when the weight, facilities and overnight conditions
  hold: the required height plays no part, so the spot is let through at every
  required height, and the condition is the one for a spot with no recorded maximum
  height. Zero is treated as absent, not as a limit of zero. Likewise a recorded
  maximum weight of zero takes the weight requirement out of the condition.
\<close>

theorem zero_restriction_is_absent:
  assumes "spot \<in> set spots"
  shows "(max_height spot = Some 0 \<or> max_height spot = None \<longrightarrow>
          (spot \<in> set (filter_spots spots reqs) \<longleftrightarrow>
             (case max_weight spot of None \<Rightarrow> True | Some v \<Rightarrow> v = 0 \<or> v \<ge> weight reqs) \<and>
             (\<not> needs_facilities reqs \<or> has_facilities spot) \<and>
             (\<not> needs_overnight reqs \<or> overnight_allowed spot)))
       \<and> (max_weight spot = Some 0 \<or> max_weight spot = None \<longrightarrow>
          (spot \<in> set (filter_spots spots reqs) \<longleftrightarrow>
             (case max_height spot of None \<Rightarrow> True | Some v \<Rightarrow> v = 0 \<or> v \<ge> height reqs) \<and>
             (\<not> needs_facilities reqs \<or> has_facilities spot) \<and>
             (\<not> needs_overnight reqs \<or> overnight_allowed spot)))"
  using assms
  by (auto simp: set_filter_spots restricted_below_def split: option.splits)

text \<open>
  A spot with a recorded maximum height of 0 is kept at a required height of 3.2 and
  of 100, and a spot with a recorded maximum weight of 0 is kept at the required
  weight of 3.5 tons.
\<close>

theorem zero_restriction_is_absent_witness:
  "spot_zero_height \<in> set (filter_spots [spot_B, spot_zero_height] (reqs_with_height 3.2))
   \<and> spot_zero_height \<in> set (filter_spots [spot_B, spot_zero_height] (reqs_with_height 100))
   \<and> spot_zero_weight \<in> set (filter_spots [spot_zero_weight] (reqs_with_height 3.2))"
proof -
  have h: "max_height spot_zero_height = Some 0" "max_weight spot_zero_height = None"
    "overnight_allowed spot_zero_height"
    by (simp_all add: spot_zero_height_def spot_at_def)
  have w: "max_weight spot_zero_weight = Some 0" "max_height spot_zero_weight = None"
    "overnight_allowed spot_zero_weight"
    by (simp_all add: spot_zero_weight_def spot_at_def)
  have "spot_zero_height \<in> set (filter_spots [spot_B, spot_zero_height] (reqs_with_height r))"
    for r
    using zero_restriction_is_absent [of spot_zero_height "[spot_B, spot_zero_height]"
        "reqs_with_height r"] h
    by (simp add: reqs_with_height_def)
  moreover have "spot_zero_weight \<in> set (filter_spots [spot_zero_weight] (reqs_with_height r))"
    for r
    using zero_restriction_is_absent [of spot_zero_weight "[spot_zero_weight]"
        "reqs_with_height r"] w
    by (simp add: reqs_with_height_def)
  ultimately show ?thesis by simp
qed

section \<open>Orchestrator: properties\<close>

lemma deduplicate_spots_Nil: "deduplicate_spots [] = []"
  by (simp add: deduplicate_spots_def)

lemma deduplicate_spots_single: "deduplicate_spots [spot] = [spot]"
  by (simp add: deduplicate_spots_def dedup_step_def)

lemma round_half_even_close: "\<bar>x - real_of_int (round_half_even x)\<bar> \<le> 1 / 2"
proof -
  have "real_of_int \<lfloor>x\<rfloor> \<le> x" "x < real_of_int \<lfloor>x\<rfloor> + 1" by linarith+
  then show ?thesis by (auto simp: round_half_even_def Let_def)
qed

lemma make_cache_key_rounds:
  "(case make_cache_key lat lon radius of
      ((lat_negative, lat_digits), (lon_negative, lon_digits), r) \<Rightarrow>
        lat_negative = (lat < 0) \<and> \<bar>\<bar>lat\<bar> * 10000 - real_of_int lat_digits\<bar> \<le> 1 / 2 \<and>
        lon_negative = (lon < 0) \<and> \<bar>\<bar>lon\<bar> * 10000 - real_of_int lon_digits\<bar> \<le> 1 / 2 \<and>
        r = radius)"
  using round_half_even_close [of "\<bar>lat\<bar> * 10000"]
    round_half_even_close [of "\<bar>lon\<bar> * 10000"]
  by (simp add: make_cache_key_def format_4f_def)

lemma format_4f_zero: "format_4f 0 = (False, 0)"
  by (simp add: format_4f_def round_half_even_def)

lemma format_4f_nearby: "format_4f lat_nearby = (False, 0)"
proof -
  have a: "\<bar>lat_nearby\<bar> * 10000 = 1 / 10" by (simp add: lat_nearby_def)
  have b: "round_half_even (1 / 10) = 0" by (simp add: round_half_even_def Let_def)
  have c: "\<not> lat_nearby < 0" by (simp add: lat_nearby_def)
  show ?thesis unfolding format_4f_def a b using c by simp
qed

lemma make_cache_key_nearby: "make_cache_key lat_nearby 0 r = make_cache_key 0 0 r"
  by (simp add: make_cache_key_def format_4f_zero format_4f_nearby)

lemma find_miss:
  assumes "geocode_location w location = Some (lat, lon)"
    and "case cache (make_cache_key lat lon (radius_km reqs)) of
           None \<Rightarrow> True
         | Some (cached_data, timestamp) \<Rightarrow> \<not> time_at_check w - timestamp < cache_duration"
  shows "find_parking_spots w cache location reqs =
     scrape_and_cache w cache (make_cache_key lat lon (radius_km reqs)) location lat lon reqs"
  using assms by (auto simp: find_parking_spots_def Let_def split: option.splits)

lemma find_hit:
  assumes "geocode_location w location = Some (lat, lon)"
    and "cache (make_cache_key lat lon (radius_km reqs)) = Some (cached_data, timestamp)"
    and "time_at_check w - timestamp < cache_duration"
  shows "find_parking_spots w cache location reqs =
     (Inr (filter_spots cached_data reqs), cache, [])"
  using assms by (simp add: find_parking_spots_def Let_def)

lemma find_connectors_invoked:
  assumes "geocode_location w location = Some (lat, lon)"
    and "snd (snd (find_parking_spots w cache location reqs)) \<noteq> []"
  shows "find_parking_spots w cache location reqs =
     scrape_and_cache w cache (make_cache_key lat lon (radius_km reqs)) location lat lon reqs"
  using assms by (auto simp: find_parking_spots_def Let_def split: option.splits if_splits)

lemma search_parking_calls:
  "snd (snd (search_parking w cache location h wt len facilities overnight radius))
     = snd (snd (find_parking_spots w cache location
         \<lparr>height = h, weight = wt, length_req = len, needs_facilities = facilities,
          needs_overnight = overnight, radius_km = radius\<rparr>))"
  by (auto simp: search_parking_def Let_def split: prod.splits sum.splits)

lemma scrape_and_cache_calls_osm:
  "OpenStreetMap \<in> set (snd (snd (scrape_and_cache w cache key location lat lon reqs)))"
  by (simp add: scrape_and_cache_def Let_def split: sum.splits)

lemma city_search_empty_name: "city_search w [] lat lon r = []"
  by (simp add: city_search_def lower_def city_parking_urls_def)

lemma geocode_quiet: "geocode_location quiet_world l = Some (0, 0)"
  by (simp add: geocode_location_def quiet_world_def)

lemma geocode_unresolved: "geocode_location world_unresolved l = None"
  by (simp add: geocode_location_def quiet_world_def world_unresolved_def)

lemma geocode_one_spot: "geocode_location world_one_spot l = Some (0, 0)"
  by (simp add: geocode_location_def quiet_world_def world_one_spot_def)

lemma geocode_later: "geocode_location world_later l = Some (lat_nearby, 0)"
  by (simp add: geocode_location_def quiet_world_def world_later_def)

lemma geocode_world_at: "geocode_location (world_at t) l = Some (0, 0)"
  by (simp add: geocode_location_def quiet_world_def world_at_def)

lemma geocode_osm_raises: "geocode_location world_osm_raises l = Some (0, 0)"
  by (simp add: geocode_location_def quiet_world_def world_osm_raises_def)

lemma osm_search_quiet: "osm_search quiet_world lat lon r = Inr []"
  by (simp add: osm_search_def quiet_world_def)

lemma osm_search_world_at: "osm_search (world_at t) lat lon r = Inr []"
  by (simp add: osm_search_def quiet_world_def world_at_def)

lemma osm_search_one_spot: "osm_search world_one_spot lat lon r = Inr [spot_no_overnight]"
  by (simp add: osm_search_def world_one_spot_def quiet_world_def)

lemma google_search_quiet: "google_search quiet_world lat lon r = []"
  by (simp add: google_search_def quiet_world_def)

lemma google_search_world_at: "google_search (world_at t) lat lon r = []"
  by (simp add: google_search_def quiet_world_def world_at_def)

lemma google_search_one_spot: "google_search world_one_spot lat lon r = []"
  by (simp add: google_search_def world_one_spot_def quiet_world_def)

lemma filter_no_overnight:
  "filter_spots [spot_no_overnight] (reqs_overnight True) = []"
  "filter_spots [spot_no_overnight] (reqs_overnight False) = [spot_no_overnight]"
  by (simp_all add: filter_spots_single restricted_below_def spot_no_overnight_def
        reqs_overnight_def spot_at_def)

lemma filter_no_overnight_plain:
  "filter_spots [spot_no_overnight]
      \<lparr>height = 3, weight = 4, length_req = 7, needs_facilities = False,
       needs_overnight = True, radius_km = 10\<rparr> = []"
  by (simp add: filter_spots_single restricted_below_def spot_no_overnight_def spot_at_def)

text \<open>
  C4. The key holds, for each coordinate, its sign and its magnitude rounded to four
  decimal places (the stored integer is within half a unit of the fourth decimal),
  and the radius. A search that misses the cache and whose OpenStreetMap call
  returns stores the deduplicated, unfiltered set under that key with the time of
  storing. A later search whose key is the same and whose check comes less than
  \<open>cache_duration\<close> after that time invokes no connector, leaves the cache as it is
  and returns the stored set filtered by its own requirements.
\<close>

theorem cached_set_is_reused:
  assumes geo1: "geocode_location w1 location1 = Some (lat1, lon1)"
    and miss1: "case cache0 (make_cache_key lat1 lon1 (radius_km reqs1)) of
           None \<Rightarrow> True
         | Some (cached_data, timestamp) \<Rightarrow> \<not> time_at_check w1 - timestamp < cache_duration"
    and osm1: "osm_search w1 lat1 lon1 (radius_km reqs1) = Inr osm_spots"
    and geo2: "geocode_location w2 location2 = Some (lat2, lon2)"
    and same_key: "make_cache_key lat2 lon2 (radius_km reqs2)
                     = make_cache_key lat1 lon1 (radius_km reqs1)"
    and fresh: "time_at_check w2 - time_at_store w1 < cache_duration"
  shows "(case make_cache_key lat1 lon1 (radius_km reqs1) of
            ((lat_negative, lat_digits), (lon_negative, lon_digits), r) \<Rightarrow>
              lat_negative = (lat1 < 0)
              \<and> \<bar>\<bar>lat1\<bar> * 10000 - real_of_int lat_digits\<bar> \<le> 1 / 2
              \<and> lon_negative = (lon1 < 0)
              \<and> \<bar>\<bar>lon1\<bar> * 10000 - real_of_int lon_digits\<bar> \<le> 1 / 2
              \<and> r = radius_km reqs1)
       \<and> (let unique_spots = deduplicate_spots
               (osm_spots @ google_search w1 lat1 lon1 (radius_km reqs1)
                  @ city_search w1 location1 lat1 lon1 (radius_km reqs1));
             cache1 = cache0(make_cache_key lat1 lon1 (radius_km reqs1)
                               \<mapsto> (unique_spots, time_at_store w1))
           in find_parking_spots w1 cache0 location1 reqs1
                = (Inr (filter_spots unique_spots reqs1), cache1,
                   [OpenStreetMap, GooglePlaces, CityWebsites])
            \<and> find_parking_spots w2 cache1 location2 reqs2
                = (Inr (filter_spots unique_spots reqs2), cache1, []))"
proof -
  define unique_spots where "unique_spots = deduplicate_spots
               (osm_spots @ google_search w1 lat1 lon1 (radius_km reqs1)
                  @ city_search w1 location1 lat1 lon1 (radius_km reqs1))"
  define cache1 where "cache1 = cache0(make_cache_key lat1 lon1 (radius_km reqs1)
                               \<mapsto> (unique_spots, time_at_store w1))"
  have first: "find_parking_spots w1 cache0 location1 reqs1
      = (Inr (filter_spots unique_spots reqs1), cache1,
         [OpenStreetMap, GooglePlaces, CityWebsites])"
    using find_miss [of w1 location1 lat1 lon1 cache0 reqs1] geo1 miss1 osm1
    by (simp add: scrape_and_cache_def Let_def unique_spots_def cache1_def)
  have "cache1 (make_cache_key lat2 lon2 (radius_km reqs2))
      = Some (unique_spots, time_at_store w1)"
    using same_key by (simp add: cache1_def)
  then have second: "find_parking_spots w2 cache1 location2 reqs2
      = (Inr (filter_spots unique_spots reqs2), cache1, [])"
    using geo2 fresh by (simp add: find_hit)
  have "let unique_spots = deduplicate_spots
               (osm_spots @ google_search w1 lat1 lon1 (radius_km reqs1)
                  @ city_search w1 location1 lat1 lon1 (radius_km reqs1));
             cache1 = cache0(make_cache_key lat1 lon1 (radius_km reqs1)
                               \<mapsto> (unique_spots, time_at_store w1))
           in find_parking_spots w1 cache0 location1 reqs1
                = (Inr (filter_spots unique_spots reqs1), cache1,
                   [OpenStreetMap, GooglePlaces, CityWebsites])
            \<and> find_parking_spots w2 cache1 location2 reqs2
                = (Inr (filter_spots unique_spots reqs2), cache1, [])"
    using first second by (simp add: Let_def unique_spots_def cache1_def)
  then show ?thesis
    using make_cache_key_rounds [of lat1 lon1 "radius_km reqs1"] by blast
qed

text \<open>
  A first search at (0, 0) that needs overnight parking finds one spot where it is
  not allowed: the result is empty and the spot is cached. A second search, whose
  coordinates round to the same key and which does not need overnight parking,
  gets the spot from the cache although its OpenStreetMap request would fail.
\<close>

theorem cached_set_is_reused_witness:
  "find_parking_spots world_one_spot Map.empty [] (reqs_overnight True)
     = (Inr [], [make_cache_key 0 0 10 \<mapsto> ([spot_no_overnight], 1001)],
        [OpenStreetMap, GooglePlaces, CityWebsites])
   \<and> find_parking_spots world_later [make_cache_key 0 0 10 \<mapsto> ([spot_no_overnight], 1001)]
        [] (reqs_overnight False)
     = (Inr [spot_no_overnight], [make_cache_key 0 0 10 \<mapsto> ([spot_no_overnight], 1001)], [])"
proof -
  have r: "radius_km (reqs_overnight True) = 10" "radius_km (reqs_overnight False) = 10"
    by (simp_all add: reqs_overnight_def)
  have osm: "osm_search world_one_spot 0 0 (radius_km (reqs_overnight True))
      = Inr [spot_no_overnight]"
    by (rule osm_search_one_spot)
  have key: "make_cache_key lat_nearby 0 (radius_km (reqs_overnight False))
      = make_cache_key 0 0 (radius_km (reqs_overnight True))"
    by (simp add: r make_cache_key_nearby)
  have fresh: "time_at_check world_later - time_at_store world_one_spot < cache_duration"
    by (simp add: world_later_def world_one_spot_def quiet_world_def cache_duration_def)
  have t: "time_at_store world_one_spot = 1001"
    by (simp add: world_one_spot_def quiet_world_def)
  show ?thesis
    using cached_set_is_reused [of world_one_spot "[]" 0 0 Map.empty "reqs_overnight True"
        "[spot_no_overnight]" world_later "[]" lat_nearby 0 "reqs_overnight False"]
      geocode_one_spot osm geocode_later key fresh
    by (simp add: Let_def google_search_one_spot city_search_empty_name
        deduplicate_spots_single filter_no_overnight r t)
qed

text \<open>
  C5. \<open>cache_duration\<close> is 3600 seconds. For a search whose key has an entry created
  at \<open>creation_timestamp\<close>: when the time of the check minus the creation time is
  less than \<open>cache_duration\<close> the entry is used (no connector is invoked); when it is
  not, the search goes on to the connectors. In particular the entry is used one
  second before \<open>creation_timestamp + cache_duration\<close> and not used one second after.
\<close>

theorem cache_entry_ttl:
  assumes geo: "geocode_location w location = Some (lat, lon)"
    and entry: "cache (make_cache_key lat lon (radius_km reqs))
                  = Some (cached_data, creation_timestamp)"
  shows "cache_duration = 3600
    \<and> (time_at_check w - creation_timestamp < cache_duration \<longrightarrow>
         find_parking_spots w cache location reqs
           = (Inr (filter_spots cached_data reqs), cache, []))
    \<and> (\<not> time_at_check w - creation_timestamp < cache_duration \<longrightarrow>
         find_parking_spots w cache location reqs
           = scrape_and_cache w cache (make_cache_key lat lon (radius_km reqs))
               location lat lon reqs
         \<and> OpenStreetMap \<in> set (snd (snd (find_parking_spots w cache location reqs))))
    \<and> (time_at_check w = creation_timestamp + cache_duration - 1 \<longrightarrow>
         find_parking_spots w cache location reqs
           = (Inr (filter_spots cached_data reqs), cache, []))
    \<and> (time_at_check w = creation_timestamp + cache_duration + 1 \<longrightarrow>
         find_parking_spots w cache location reqs
           = scrape_and_cache w cache (make_cache_key lat lon (radius_km reqs))
               location lat lon reqs
         \<and> OpenStreetMap \<in> set (snd (snd (find_parking_spots w cache location reqs))))"
proof -
  have hit: "find_parking_spots w cache location reqs
      = (Inr (filter_spots cached_data reqs), cache, [])"
    if "time_at_check w - creation_timestamp < cache_duration"
    using geo entry that by (rule find_hit)
  have miss: "find_parking_spots w cache location reqs
      = scrape_and_cache w cache (make_cache_key lat lon (radius_km reqs)) location lat lon reqs"
    if "\<not> time_at_check w - creation_timestamp < cache_duration"
    using find_miss [of w location lat lon cache reqs] geo entry that by simp
  have d: "cache_duration = 3600" by (simp add: cache_duration_def)
  show ?thesis
    using hit miss d by (auto simp: scrape_and_cache_calls_osm)
qed

text \<open>
  An entry created at time 1000: a search at 4599 gets the cached spot; a search at
  4601 invokes the connectors, which find nothing, and overwrites the entry.
\<close>

theorem cache_entry_ttl_witness:
  "find_parking_spots (world_at 4599) [make_cache_key 0 0 10 \<mapsto> ([spot_no_overnight], 1000)]
       [] (reqs_overnight False)
     = (Inr [spot_no_overnight], [make_cache_key 0 0 10 \<mapsto> ([spot_no_overnight], 1000)], [])
   \<and> find_parking_spots (world_at 4601) [make_cache_key 0 0 10 \<mapsto> ([spot_no_overnight], 1000)]
       [] (reqs_overnight False)
     = (Inr [], [make_cache_key 0 0 10 \<mapsto> ([], 4601)],
        [OpenStreetMap, GooglePlaces, CityWebsites])"
proof -
  have r: "radius_km (reqs_overnight False) = 10" by (simp add: reqs_overnight_def)
  have t: "time_at_check (world_at 4599) = 1000 + cache_duration - 1"
    "time_at_check (world_at 4601) = 1000 + cache_duration + 1"
    "time_at_store (world_at 4601) = 4601"
    by (simp_all add: world_at_def cache_duration_def)
  have e: "[make_cache_key 0 0 10 \<mapsto> ([spot_no_overnight], 1000::real)]
      (make_cache_key 0 0 (radius_km (reqs_overnight False))) = Some ([spot_no_overnight], 1000)"
    by (simp add: r)
  have a: "find_parking_spots (world_at 4599)
       [make_cache_key 0 0 10 \<mapsto> ([spot_no_overnight], 1000)] [] (reqs_overnight False)
     = (Inr [spot_no_overnight], [make_cache_key 0 0 10 \<mapsto> ([spot_no_overnight], 1000)], [])"
    using cache_entry_ttl [of "world_at 4599" "[]" 0 0
        "[make_cache_key 0 0 10 \<mapsto> ([spot_no_overnight], 1000)]" "reqs_overnight False"
        "[spot_no_overnight]" 1000] geocode_world_at e t
    by (simp add: filter_no_overnight)
  have b: "find_parking_spots (world_at 4601)
       [make_cache_key 0 0 10 \<mapsto> ([spot_no_overnight], 1000)] [] (reqs_overnight False)
     = (Inr [], [make_cache_key 0 0 10 \<mapsto> ([], 4601)],
        [OpenStreetMap, GooglePlaces, CityWebsites])"
    using cache_entry_ttl [of "world_at 4601" "[]" 0 0
        "[make_cache_key 0 0 10 \<mapsto> ([spot_no_overnight], 1000)]" "reqs_overnight False"
        "[spot_no_overnight]" 1000] geocode_world_at e t
    by (simp add: scrape_and_cache_def osm_search_world_at google_search_world_at
        city_search_empty_name deduplicate_spots_Nil filter_spots_Nil r)
  show ?thesis using a b by simp
qed

text \<open>
  C6. The specification asks that an error raised by one connector call contributes
  no records and stops neither the other connectors nor the search. The Google and
  city connectors catch every \<^verbatim>\<open>Exception\<close>; the OpenStreetMap connector catches two
  classes only, and \<^verbatim>\<open>find_parking_spots\<close> has no handler around the calls. In
  \<open>world_osm_raises\<close> the exception of the OpenStreetMap connector leaves
  \<^verbatim>\<open>find_parking_spots\<close> before the other connectors are invoked, nothing is
  cached, and \<^verbatim>\<open>search_parking\<close> reports an error, although the Google connector
  would have returned four records.
\<close>

theorem osm_failure_aborts_search:
  "osm_search world_osm_raises 0 0 10 = Inl OtherException
   \<and> find_parking_spots world_osm_raises Map.empty [] (reqs_overnight False)
     = (Inl OtherException, Map.empty, [OpenStreetMap])
   \<and> search_parking world_osm_raises Map.empty [] 3 4 7 False False 10
     = (Error OtherException, Map.empty, [OpenStreetMap])
   \<and> google_search world_osm_raises 0 0 10
     = [spot_google, spot_google, spot_google, spot_google]"
proof -
  have osm: "osm_search world_osm_raises lat lon r = Inl OtherException" for lat lon r
    by (simp add: osm_search_def world_osm_raises_def quiet_world_def)
  have f: "find_parking_spots world_osm_raises Map.empty [] reqs
     = (Inl OtherException, Map.empty, [OpenStreetMap])" for reqs
    by (simp add: find_parking_spots_def geocode_osm_raises scrape_and_cache_def osm)
  have g: "google_search world_osm_raises 0 0 10
     = [spot_google, spot_google, spot_google, spot_google]"
    by (simp add: google_search_def search_types_def world_osm_raises_def quiet_world_def)
  show ?thesis
    by (simp add: osm f g search_parking_def Let_def)
qed

text \<open>
  C7. When the geocoder does not resolve the location (its request raises, or the
  answer is empty), \<^verbatim>\<open>search_parking\<close> returns the "no_results" outcome, with no
  connector invoked and the cache untouched. When the location is resolved and the
  search invokes the three connectors (the log of the search names them), and each
  of them returns an empty sequence, the outcome is "no_results" as well, and the
  empty set is cached. A search that invokes no connector because it meets a fresh
  entry holding the empty set gives "no_results" too. None of these is the "error"
  outcome.
\<close>

theorem empty_search_is_no_results:
  "(geocode_location w location = None \<longrightarrow>
      search_parking w cache location h wt len facilities overnight radius
        = (No_results (''No suitable parking spots found near '' @ location)
             ''Try expanding search radius or adjusting requirements''
             \<lparr>p_location = location, p_height = h, p_weight = wt, p_length = len,
              p_needs_facilities = facilities, p_needs_overnight = overnight,
              p_radius_km = radius\<rparr>,
           cache, []))
   \<and> (geocode_location w location = Some (lat, lon)
       \<and> snd (snd (search_parking w cache location h wt len facilities overnight radius))
            = [OpenStreetMap, GooglePlaces, CityWebsites]
       \<and> osm_search w lat lon radius = Inr []
       \<and> google_search w lat lon radius = []
       \<and> city_search w location lat lon radius = [] \<longrightarrow>
      search_parking w cache location h wt len facilities overnight radius
        = (No_results (''No suitable parking spots found near '' @ location)
             ''Try expanding search radius or adjusting requirements''
             \<lparr>p_location = location, p_height = h, p_weight = wt, p_length = len,
              p_needs_facilities = facilities, p_needs_overnight = overnight,
              p_radius_km = radius\<rparr>,
           cache(make_cache_key lat lon radius \<mapsto> ([], time_at_store w)),
           [OpenStreetMap, GooglePlaces, CityWebsites]))
   \<and> (geocode_location w location = Some (lat, lon)
       \<and> cache (make_cache_key lat lon radius) = Some ([], created)
       \<and> time_at_check w - created < cache_duration \<longrightarrow>
      search_parking w cache location h wt len facilities overnight radius
        = (No_results (''No suitable parking spots found near '' @ location)
             ''Try expanding search radius or adjusting requirements''
             \<lparr>p_location = location, p_height = h, p_weight = wt, p_length = len,
              p_needs_facilities = facilities, p_needs_overnight = overnight,
              p_radius_km = radius\<rparr>,
           cache, []))"
proof (intro conjI impI)
  assume "geocode_location w location = None"
  then show "search_parking w cache location h wt len facilities overnight radius
        = (No_results (''No suitable parking spots found near '' @ location)
             ''Try expanding search radius or adjusting requirements''
             \<lparr>p_location = location, p_height = h, p_weight = wt, p_length = len,
              p_needs_facilities = facilities, p_needs_overnight = overnight,
              p_radius_km = radius\<rparr>,
           cache, [])"
    by (simp add: search_parking_def find_parking_spots_def Let_def)
next
  let ?reqs = "\<lparr>height = h, weight = wt, length_req = len, needs_facilities = facilities,
                   needs_overnight = overnight, radius_km = radius\<rparr>"
  assume a: "geocode_location w location = Some (lat, lon)
       \<and> snd (snd (search_parking w cache location h wt len facilities overnight radius))
            = [OpenStreetMap, GooglePlaces, CityWebsites]
       \<and> osm_search w lat lon radius = Inr []
       \<and> google_search w lat lon radius = []
       \<and> city_search w location lat lon radius = []"
  have "snd (snd (find_parking_spots w cache location ?reqs)) \<noteq> []"
    using a search_parking_calls [of w cache location h wt len facilities overnight radius]
    by simp
  then have "find_parking_spots w cache location ?reqs =
     scrape_and_cache w cache (make_cache_key lat lon (radius_km ?reqs)) location lat lon ?reqs"
    using find_connectors_invoked [of w location lat lon cache ?reqs] a by simp
  then have "find_parking_spots w cache location ?reqs =
     (Inr [], cache(make_cache_key lat lon radius \<mapsto> ([], time_at_store w)),
      [OpenStreetMap, GooglePlaces, CityWebsites])"
    using a by (simp add: scrape_and_cache_def deduplicate_spots_Nil filter_spots_Nil)
  then show "search_parking w cache location h wt len facilities overnight radius
        = (No_results (''No suitable parking spots found near '' @ location)
             ''Try expanding search radius or adjusting requirements''
             \<lparr>p_location = location, p_height = h, p_weight = wt, p_length = len,
              p_needs_facilities = facilities, p_needs_overnight = overnight,
              p_radius_km = radius\<rparr>,
           cache(make_cache_key lat lon radius \<mapsto> ([], time_at_store w)),
           [OpenStreetMap, GooglePlaces, CityWebsites])"
    by (simp add: search_parking_def Let_def)
next
  let ?reqs = "\<lparr>height = h, weight = wt, length_req = len, needs_facilities = facilities,
                   needs_overnight = overnight, radius_km = radius\<rparr>"
  assume a: "geocode_location w location = Some (lat, lon)
       \<and> cache (make_cache_key lat lon radius) = Some ([], created)
       \<and> time_at_check w - created < cache_duration"
  have "find_parking_spots w cache location ?reqs = (Inr (filter_spots [] ?reqs), cache, [])"
    using find_hit [of w location lat lon cache ?reqs "[]" created] a by simp
  then show "search_parking w cache location h wt len facilities overnight radius
        = (No_results (''No suitable parking spots found near '' @ location)
             ''Try expanding search radius or adjusting requirements''
             \<lparr>p_location = location, p_height = h, p_weight = wt, p_length = len,
              p_needs_facilities = facilities, p_needs_overnight = overnight,
              p_radius_km = radius\<rparr>,
           cache, [])"
    by (simp add: search_parking_def Let_def filter_spots_Nil)
qed

text \<open>
  A location the geocoder cannot resolve, a search in the quiet world, where every
  connector returns nothing, and a second search that meets the entry left by it.
\<close>

theorem empty_search_is_no_results_witness:
  "search_parking world_unresolved Map.empty ''Atlantis'' 3 4 7 False True 10
     = (No_results ''No suitable parking spots found near Atlantis''
          ''Try expanding search radius or adjusting requirements''
          \<lparr>p_location = ''Atlantis'', p_height = 3, p_weight = 4, p_length = 7,
           p_needs_facilities = False, p_needs_overnight = True, p_radius_km = 10\<rparr>,
        Map.empty, [])
   \<and> search_parking quiet_world Map.empty [] 3 4 7 False True 10
     = (No_results ''No suitable parking spots found near ''
          ''Try expanding search radius or adjusting requirements''
          \<lparr>p_location = [], p_height = 3, p_weight = 4, p_length = 7,
           p_needs_facilities = False, p_needs_overnight = True, p_radius_km = 10\<rparr>,
        [make_cache_key 0 0 10 \<mapsto> ([], 1001)],
        [OpenStreetMap, GooglePlaces, CityWebsites])
   \<and> search_parking quiet_world [make_cache_key 0 0 10 \<mapsto> ([], 1)] [] 3 4 7 False True 10
     = (No_results ''No suitable parking spots found near ''
          ''Try expanding search radius or adjusting requirements''
          \<lparr>p_location = [], p_height = 3, p_weight = 4, p_length = 7,
           p_needs_facilities = False, p_needs_overnight = True, p_radius_km = 10\<rparr>,
        [make_cache_key 0 0 10 \<mapsto> ([], 1)], [])"
proof -
  have t: "time_at_store quiet_world = 1001" "time_at_check quiet_world = 1000"
    by (simp_all add: quiet_world_def)
  have calls: "snd (snd (search_parking quiet_world Map.empty [] 3 4 7 False True 10))
      = [OpenStreetMap, GooglePlaces, CityWebsites]"
    by (simp add: search_parking_calls find_parking_spots_def geocode_quiet
        scrape_and_cache_def osm_search_quiet Let_def)
  have a: "search_parking world_unresolved Map.empty ''Atlantis'' 3 4 7 False True 10
     = (No_results ''No suitable parking spots found near Atlantis''
          ''Try expanding search radius or adjusting requirements''
          \<lparr>p_location = ''Atlantis'', p_height = 3, p_weight = 4, p_length = 7,
           p_needs_facilities = False, p_needs_overnight = True, p_radius_km = 10\<rparr>,
        Map.empty, [])"
    using empty_search_is_no_results [where w = world_unresolved and location = "''Atlantis''"
        and cache = Map.empty and h = 3 and wt = 4 and len = 7 and facilities = False
        and overnight = True and radius = 10] geocode_unresolved
    by simp
  have b: "search_parking quiet_world Map.empty [] 3 4 7 False True 10
     = (No_results ''No suitable parking spots found near ''
          ''Try expanding search radius or adjusting requirements''
          \<lparr>p_location = [], p_height = 3, p_weight = 4, p_length = 7,
           p_needs_facilities = False, p_needs_overnight = True, p_radius_km = 10\<rparr>,
        [make_cache_key 0 0 10 \<mapsto> ([], 1001)],
        [OpenStreetMap, GooglePlaces, CityWebsites])"
    using empty_search_is_no_results [where w = quiet_world and location = "[]"
        and cache = Map.empty and h = 3 and wt = 4 and len = 7 and facilities = False
        and overnight = True and radius = 10 and lat = 0 and lon = 0] geocode_quiet calls
    by (simp add: osm_search_quiet google_search_quiet city_search_empty_name t)
  have c: "search_parking quiet_world [make_cache_key 0 0 10 \<mapsto> ([], 1)] [] 3 4 7 False True 10
     = (No_results ''No suitable parking spots found near ''
          ''Try expanding search radius or adjusting requirements''
          \<lparr>p_location = [], p_height = 3, p_weight = 4, p_length = 7,
           p_needs_facilities = False, p_needs_overnight = True, p_radius_km = 10\<rparr>,
        [make_cache_key 0 0 10 \<mapsto> ([], 1)], [])"
    using empty_search_is_no_results [where w = quiet_world and location = "[]"
        and cache = "[make_cache_key 0 0 10 \<mapsto> ([], 1)]" and h = 3 and wt = 4 and len = 7
        and facilities = False and overnight = True and radius = 10 and lat = 0 and lon = 0
        and created = 1] geocode_quiet
    by (simp add: t cache_duration_def)
  show ?thesis using a b c by simp
qed

text \<open>
  C8, as the specification states it, fails: the outcome of a search whose candidates
  were all removed by the filter is the very outcome of a search that found no
  candidate. In \<open>quiet_world\<close> nothing is found (the cached set is empty); in
  \<open>world_one_spot\<close> one candidate is found and cached, and the filter removes it;
  the two results of \<^verbatim>\<open>search_parking\<close> are equal.
\<close>

theorem filtered_out_equals_nothing_found_counterexample:
  "fst (search_parking quiet_world Map.empty [] 3 4 7 False True 10)
     = fst (search_parking world_one_spot Map.empty [] 3 4 7 False True 10)
   \<and> fst (snd (search_parking quiet_world Map.empty [] 3 4 7 False True 10))
        (make_cache_key 0 0 10) = Some ([], 1001)
   \<and> fst (snd (search_parking world_one_spot Map.empty [] 3 4 7 False True 10))
        (make_cache_key 0 0 10) = Some ([spot_no_overnight], 1001)"
proof -
  have t: "time_at_store quiet_world = 1001" "time_at_store world_one_spot = 1001"
    by (simp_all add: quiet_world_def world_one_spot_def)
  show ?thesis
    by (simp add: search_parking_def find_parking_spots_def scrape_and_cache_def Let_def
        geocode_quiet geocode_one_spot osm_search_quiet google_search_quiet
        osm_search_one_spot google_search_one_spot
        city_search_empty_name deduplicate_spots_Nil deduplicate_spots_single
        filter_spots_Nil filter_no_overnight_plain t)
qed

text \<open>
  C8, amended. Whenever \<^verbatim>\<open>find_parking_spots\<close> returns an empty list, whether
  nothing was found or everything found was filtered out, \<^verbatim>\<open>search_parking\<close>
  returns the one "no_results" outcome, which carries the attempted search
  parameters and the suggestion to expand the radius or adjust the requirements.
  In particular, when the connectors are invoked and the filter removes all of the
  deduplicated candidates, that outcome is returned and the candidates are cached.
\<close>

theorem no_matches_is_no_results:
  "(fst (find_parking_spots w cache location
           \<lparr>height = h, weight = wt, length_req = len, needs_facilities = facilities,
            needs_overnight = overnight, radius_km = radius\<rparr>) = Inr [] \<longrightarrow>
      fst (search_parking w cache location h wt len facilities overnight radius)
        = No_results (''No suitable parking spots found near '' @ location)
            ''Try expanding search radius or adjusting requirements''
            \<lparr>p_location = location, p_height = h, p_weight = wt, p_length = len,
             p_needs_facilities = facilities, p_needs_overnight = overnight,
             p_radius_km = radius\<rparr>)
   \<and> (geocode_location w location = Some (lat, lon)
       \<and> (case cache (make_cache_key lat lon radius) of
             None \<Rightarrow> True
           | Some (cached_data, timestamp) \<Rightarrow> \<not> time_at_check w - timestamp < cache_duration)
       \<and> osm_search w lat lon radius = Inr osm_spots
       \<and> filter_spots
            (deduplicate_spots (osm_spots @ google_search w lat lon radius
               @ city_search w location lat lon radius))
            \<lparr>height = h, weight = wt, length_req = len, needs_facilities = facilities,
             needs_overnight = overnight, radius_km = radius\<rparr> = [] \<longrightarrow>
      search_parking w cache location h wt len facilities overnight radius
        = (No_results (''No suitable parking spots found near '' @ location)
             ''Try expanding search radius or adjusting requirements''
             \<lparr>p_location = location, p_height = h, p_weight = wt, p_length = len,
              p_needs_facilities = facilities, p_needs_overnight = overnight,
              p_radius_km = radius\<rparr>,
           cache(make_cache_key lat lon radius \<mapsto>
             (deduplicate_spots (osm_spots @ google_search w lat lon radius
                @ city_search w location lat lon radius), time_at_store w)),
           [OpenStreetMap, GooglePlaces, CityWebsites]))"
proof (intro conjI impI)
  assume "fst (find_parking_spots w cache location
           \<lparr>height = h, weight = wt, length_req = len, needs_facilities = facilities,
            needs_overnight = overnight, radius_km = radius\<rparr>) = Inr []"
  then show "fst (search_parking w cache location h wt len facilities overnight radius)
        = No_results (''No suitable parking spots found near '' @ location)
            ''Try expanding search radius or adjusting requirements''
            \<lparr>p_location = location, p_height = h, p_weight = wt, p_length = len,
             p_needs_facilities = facilities, p_needs_overnight = overnight,
             p_radius_km = radius\<rparr>"
    by (auto simp: search_parking_def Let_def split: prod.splits sum.splits)
next
  let ?reqs = "\<lparr>height = h, weight = wt, length_req = len, needs_facilities = facilities,
                   needs_overnight = overnight, radius_km = radius\<rparr>"
  let ?unique = "deduplicate_spots (osm_spots @ google_search w lat lon radius
               @ city_search w location lat lon radius)"
  assume a: "geocode_location w location = Some (lat, lon)
       \<and> (case cache (make_cache_key lat lon radius) of
             None \<Rightarrow> True
           | Some (cached_data, timestamp) \<Rightarrow> \<not> time_at_check w - timestamp < cache_duration)
       \<and> osm_search w lat lon radius = Inr osm_spots
       \<and> filter_spots ?unique ?reqs = []"
  have "find_parking_spots w cache location ?reqs =
     scrape_and_cache w cache (make_cache_key lat lon (radius_km ?reqs)) location lat lon ?reqs"
    using find_miss [of w location lat lon cache ?reqs] a by simp
  then have "find_parking_spots w cache location ?reqs =
     (Inr [], cache(make_cache_key lat lon radius \<mapsto> (?unique, time_at_store w)),
      [OpenStreetMap, GooglePlaces, CityWebsites])"
    using a by (simp add: scrape_and_cache_def Let_def)
  then show "search_parking w cache location h wt len facilities overnight radius
        = (No_results (''No suitable parking spots found near '' @ location)
             ''Try expanding search radius or adjusting requirements''
             \<lparr>p_location = location, p_height = h, p_weight = wt, p_length = len,
              p_needs_facilities = facilities, p_needs_overnight = overnight,
              p_radius_km = radius\<rparr>,
           cache(make_cache_key lat lon radius \<mapsto> (?unique, time_at_store w)),
           [OpenStreetMap, GooglePlaces, CityWebsites])"
    by (simp add: search_parking_def Let_def)
qed

text \<open>
  The search in \<open>world_one_spot\<close> that needs overnight parking: the one candidate
  is cached and filtered out, and the outcome is "no_results" with the parameters.
\<close>

theorem no_matches_is_no_results_witness:
  "search_parking world_one_spot Map.empty [] 3 4 7 False True 10
     = (No_results ''No suitable parking spots found near ''
          ''Try expanding search radius or adjusting requirements''
          \<lparr>p_location = [], p_height = 3, p_weight = 4, p_length = 7,
           p_needs_facilities = False, p_needs_overnight = True, p_radius_km = 10\<rparr>,
        [make_cache_key 0 0 10 \<mapsto> ([spot_no_overnight], 1001)],
        [OpenStreetMap, GooglePlaces, CityWebsites])"
proof -
  have t: "time_at_store world_one_spot = 1001"
    by (simp add: world_one_spot_def quiet_world_def)
  show ?thesis
    using no_matches_is_no_results [where w = world_one_spot and cache = Map.empty
        and location = "[]" and h = 3 and wt = 4 and len = 7 and facilities = False
        and overnight = True and radius = 10 and lat = 0 and lon = 0
        and osm_spots = "[spot_no_overnight]"] geocode_one_spot
    by (simp add: osm_search_one_spot google_search_one_spot city_search_empty_name
        deduplicate_spots_single filter_no_overnight_plain t)
qed

end
